theory Spec2Isabelle
  imports Complex_Main
begin

section \<open>Invoice QC: record model and validation engine\<close>

text \<open>
  A shallow embedding of \<^verbatim>\<open>backend/invoice_qc/models.py\<close> and
  \<^verbatim>\<open>backend/invoice_qc/validator.py\<close>.

  Modelling conventions.
  \<^item> Fields carry their declared types. A Python \<^verbatim>\<open>float\<close> amount is an exact
    \<^typ>\<open>real\<close>: binary rounding, infinities and NaN are outside the model.
  \<^item> A \<^verbatim>\<open>datetime.date\<close> is its (year, month, day) triple, as the library
    stores it; \<^verbatim>\<open>date.today()\<close> and \<^verbatim>\<open>datetime.utcnow()\<close> read the clock, so the
    current date and the current timestamp are explicit arguments. One call sees one
    date: a run that crosses midnight is not modelled.
  \<^item> \<^verbatim>\<open>currency\<close> is a string: a \<^verbatim>\<open>Currency\<close> member is a \<^verbatim>\<open>str\<close> that compares
    and strips as its value, and a record built or changed without validation can hold
    any string, which is what the engine's membership check is for.
  \<^item> The engine's \<^verbatim>\<open>seen_invoices\<close> set is explicit state, passed in and
    returned.
  \<^item> A message is kept as its f-string template (the constructor) together with
    the values substituted into it; the rendering of numbers is not modelled.
\<close>

subsection \<open>Dates\<close>

record date =
  year :: nat
  month :: nat
  day :: nat

definition is_leap :: "nat \<Rightarrow> bool" where
  "is_leap y = (y mod 4 = 0 \<and> (y mod 100 \<noteq> 0 \<or> y mod 400 = 0))"

definition days_before_year :: "nat \<Rightarrow> int" where
  "days_before_year y =
     (let z = int y - 1 in z * 365 + z div 4 - z div 100 + z div 400)"

text \<open>
  The number of days of the year before the first of the month, from the library's
  table for a common year; a date object always has its month between 1 and 12.
\<close>

definition DAYS_BEFORE_MONTH :: "int list" where
  "DAYS_BEFORE_MONTH = [0, 0, 31, 59, 90, 120, 151, 181, 212, 243, 273, 304, 334]"

definition days_before_month :: "nat \<Rightarrow> nat \<Rightarrow> int" where
  "days_before_month y m =
     (if m < 13 then DAYS_BEFORE_MONTH ! m else 0) + (if m > 2 \<and> is_leap y then 1 else 0)"

definition toordinal :: "date \<Rightarrow> int" where
  "toordinal d = days_before_year (year d) + days_before_month (year d) (month d) + int (day d)"

text \<open>\<^verbatim>\<open>(a - b).days\<close>\<close>

definition days_between :: "date \<Rightarrow> date \<Rightarrow> int" where
  "days_between a b = toordinal a - toordinal b"

text \<open>\<^verbatim>\<open>a < b\<close> on dates compares (year, month, day).\<close>

definition date_less :: "date \<Rightarrow> date \<Rightarrow> bool" where
  "date_less a b =
     (year a < year b \<or> (year a = year b \<and>
       (month a < month b \<or> (month a = month b \<and> day a < day b))))"

definition digit :: "nat \<Rightarrow> char" where
  "digit n = ''0123456789'' ! (n mod 10)"

text \<open>\<^verbatim>\<open>str(d)\<close> is the ISO form \<^verbatim>\<open>YYYY-MM-DD\<close>.\<close>

definition str_date :: "date \<Rightarrow> string" where
  "str_date d =
     [digit (year d div 1000), digit (year d div 100), digit (year d div 10), digit (year d)]
     @ ''-'' @ [digit (month d div 10), digit (month d)]
     @ ''-'' @ [digit (day d div 10), digit (day d)]"

text \<open>
  A date object defines neither \<^verbatim>\<open>__bool__\<close> nor \<^verbatim>\<open>__len__\<close>: it is always
  truthy; and a value of the declared type is an instance of \<^verbatim>\<open>date\<close>.
\<close>

definition truthy_date :: "date \<Rightarrow> bool" where
  "truthy_date d = True"

definition isinstance_date :: "date \<Rightarrow> bool" where
  "isinstance_date d = True"

subsection \<open>models.py\<close>

definition Currency_values :: "string list" where
  "Currency_values = [''EUR'', ''USD'', ''GBP'', ''INR'']"

record LineItem =
  description :: string
  quantity :: real
  unit_price :: real
  line_total :: real
  tax_rate :: "real option"

record Invoice =
  invoice_number :: string
  external_reference :: "string option"
  seller_name :: string
  seller_address :: "string option"
  seller_tax_id :: "string option"
  buyer_name :: string
  buyer_address :: "string option"
  buyer_tax_id :: "string option"
  invoice_date :: date
  due_date :: "date option"
  currency :: string
  net_total :: real
  tax_amount :: real
  gross_total :: real
  line_items :: "LineItem list"
  payment_terms :: "string option"
  notes_text :: "string option"
  source_file :: "string option"
  extracted_at :: "int option"

datatype construction_error = ValueError string

text \<open>The field validator of \<^verbatim>\<open>net_total\<close>, \<^verbatim>\<open>tax_amount\<close> and \<^verbatim>\<open>gross_total\<close>.\<close>

definition non_negative_amounts :: "real \<Rightarrow> construction_error + real" where
  "non_negative_amounts v =
     (if v < 0 then Inl (ValueError ''Amounts cannot be negative'') else Inr v)"

text \<open>
  Constructing an \<^verbatim>\<open>Invoice\<close> from values of the declared types runs the field
  validator on the three totals, in field order; the construction fails with the
  errors of all failing fields (each tagged with its field name) when there is one.
\<close>

definition field_errors :: "string \<Rightarrow> real \<Rightarrow> (string \<times> construction_error) list" where
  "field_errors name v =
     (case non_negative_amounts v of Inl e \<Rightarrow> [(name, e)] | Inr _ \<Rightarrow> [])"

definition Invoice_init :: "Invoice \<Rightarrow> (string \<times> construction_error) list + Invoice" where
  "Invoice_init raw =
     (let errs = field_errors ''net_total'' (net_total raw)
               @ field_errors ''tax_amount'' (tax_amount raw)
               @ field_errors ''gross_total'' (gross_total raw)
      in if errs = [] then Inr raw else Inl errs)"

datatype message =
    Missing_required_field string
  | Required_field_is_empty string
  | Invoice_date_invalid date
  | Invoice_date_unrealistic date
  | Due_date_invalid date
  | Currency_not_in string "string list"
  | Line_items_total_mismatch real real real
  | Gross_total_mismatch real real real real
  | Due_date_before_invoice_date date date
  | Duplicate_invoice_detected string string date
  | Amount_negative string real
  | Line_item_negative_quantity nat real
  | Line_item_negative_unit_price nat real
  | Invoice_has_no_line_items
  | Seller_tax_id_missing
  | Due_date_missing
  | Invoice_is_old int

record ValidationError =
  rule :: string
  message :: message
  severity :: string

record ValidationResult =
  invoice_id :: string
  is_valid :: bool
  errors :: "ValidationError list"
  warnings :: "ValidationError list"

record ValidationSummary =
  total_invoices :: int
  valid_invoices :: int
  invalid_invoices :: int
  error_counts :: "string \<rightharpoonup> int"
  validation_timestamp :: int

subsection \<open>validator.py\<close>

definition mk_error :: "string \<Rightarrow> message \<Rightarrow> ValidationError" where
  "mk_error r m = \<lparr>rule = r, message = m, severity = ''error''\<rparr>"

definition mk_warning :: "string \<Rightarrow> message \<Rightarrow> ValidationError" where
  "mk_warning r m = \<lparr>rule = r, message = m, severity = ''warning''\<rparr>"

definition REQUIRED_FIELDS :: "string list" where
  "REQUIRED_FIELDS = [''invoice_number'', ''invoice_date'', ''seller_name'', ''buyer_name'',
     ''currency'', ''net_total'', ''tax_amount'', ''gross_total'']"

record InvoiceValidator =
  seen_invoices :: "(string \<times> string \<times> string) set"

definition InvoiceValidator_init :: InvoiceValidator where
  "InvoiceValidator_init = \<lparr>seen_invoices = {}\<rparr>"

datatype field_value = VNone | VStr string | VDate date | VFloat real

text \<open>\<^verbatim>\<open>getattr(invoice, field_name, None)\<close>\<close>

definition getattr_invoice :: "Invoice \<Rightarrow> string \<Rightarrow> field_value" where
  "getattr_invoice invoice name =
     (if name = ''invoice_number'' then VStr (invoice_number invoice)
      else if name = ''invoice_date'' then VDate (invoice_date invoice)
      else if name = ''seller_name'' then VStr (seller_name invoice)
      else if name = ''buyer_name'' then VStr (buyer_name invoice)
      else if name = ''currency'' then VStr (currency invoice)
      else if name = ''net_total'' then VFloat (net_total invoice)
      else if name = ''tax_amount'' then VFloat (tax_amount invoice)
      else if name = ''gross_total'' then VFloat (gross_total invoice)
      else VNone)"

text \<open>
  The characters \<^verbatim>\<open>str.strip()\<close> removes, among the ASCII ones: tab, line feed,
  vertical tab, form feed, carriage return, the separators 28 to 31 and the space.
\<close>

definition is_space :: "char \<Rightarrow> bool" where
  "is_space c = (let n = of_char c :: nat in (9 \<le> n \<and> n \<le> 13) \<or> (28 \<le> n \<and> n \<le> 32))"

text \<open>\<^verbatim>\<open>not value.strip()\<close>: nothing is left once the white space is stripped.\<close>

definition blank :: "string \<Rightarrow> bool" where
  "blank s = list_all is_space s"

definition required_field_errors :: "Invoice \<Rightarrow> string \<Rightarrow> ValidationError list" where
  "required_field_errors invoice field_name =
     (case getattr_invoice invoice field_name of
        VNone \<Rightarrow> [mk_error ''required_field_missing'' (Missing_required_field field_name)]
      | VStr s \<Rightarrow>
          (if blank s
           then [mk_error ''required_field_empty'' (Required_field_is_empty field_name)]
           else [])
      | _ \<Rightarrow> [])"

definition check_required_fields :: "Invoice \<Rightarrow> ValidationError list" where
  "check_required_fields invoice = concat (map (required_field_errors invoice) REQUIRED_FIELDS)"

definition check_dates :: "date \<Rightarrow> Invoice \<Rightarrow> ValidationError list" where
  "check_dates today invoice =
     (if truthy_date (invoice_date invoice) then
        (if \<not> isinstance_date (invoice_date invoice)
         then [mk_error ''invalid_date_format'' (Invoice_date_invalid (invoice_date invoice))]
         else if \<bar>days_between today (invoice_date invoice)\<bar> > 3650
         then [mk_error ''date_out_of_range'' (Invoice_date_unrealistic (invoice_date invoice))]
         else [])
      else [])
     @ (case due_date invoice of
          None \<Rightarrow> []
        | Some d \<Rightarrow>
            (if truthy_date d \<and> \<not> isinstance_date d
             then [mk_error ''invalid_date_format'' (Due_date_invalid d)]
             else []))"

definition check_currency :: "Invoice \<Rightarrow> ValidationError list" where
  "check_currency invoice =
     (let allowed = Currency_values
      in if currency invoice \<notin> set allowed
         then [mk_error ''invalid_currency'' (Currency_not_in (currency invoice) allowed)]
         else [])"

definition check_line_items_sum :: "Invoice \<Rightarrow> ValidationError list" where
  "check_line_items_sum invoice =
     (if line_items invoice = [] then []
      else
        (let computed_sum = sum_list (map line_total (line_items invoice));
             tolerance = net_total invoice * 0.01;
             diff = \<bar>computed_sum - net_total invoice\<bar>
         in if diff > tolerance
            then [mk_error ''line_items_sum_mismatch''
                    (Line_items_total_mismatch computed_sum (net_total invoice) diff)]
            else []))"

definition check_gross_calculation :: "Invoice \<Rightarrow> ValidationError list" where
  "check_gross_calculation invoice =
     (let expected_gross = net_total invoice + tax_amount invoice;
          tolerance = gross_total invoice * 0.005;
          diff = \<bar>expected_gross - gross_total invoice\<bar>
      in if diff > tolerance
         then [mk_error ''gross_calculation_mismatch''
                 (Gross_total_mismatch (net_total invoice) (tax_amount invoice) expected_gross
                    (gross_total invoice))]
         else [])"

definition check_due_date :: "Invoice \<Rightarrow> ValidationError list" where
  "check_due_date invoice =
     (case due_date invoice of
        None \<Rightarrow> []
      | Some d \<Rightarrow>
          (if truthy_date d \<and> truthy_date (invoice_date invoice) then
             (if date_less d (invoice_date invoice)
              then [mk_error ''due_date_before_invoice_date''
                      (Due_date_before_invoice_date d (invoice_date invoice))]
              else [])
           else []))"

definition invoice_key :: "Invoice \<Rightarrow> string \<times> string \<times> string" where
  "invoice_key invoice = (invoice_number invoice, seller_name invoice, str_date (invoice_date invoice))"

definition check_duplicates ::
  "InvoiceValidator \<Rightarrow> Invoice \<Rightarrow> ValidationError list \<times> InvoiceValidator" where
  "check_duplicates self invoice =
     (let key = invoice_key invoice
      in if key \<in> seen_invoices self
         then ([mk_error ''duplicate_invoice''
                  (Duplicate_invoice_detected (invoice_number invoice) (seller_name invoice)
                     (invoice_date invoice))], self)
         else ([], self\<lparr>seen_invoices := insert key (seen_invoices self)\<rparr>))"

definition amount_errors :: "string \<times> real \<Rightarrow> ValidationError list" where
  "amount_errors nv =
     (case nv of (name, v) \<Rightarrow>
        if v < 0 then [mk_error ''negative_amount'' (Amount_negative name v)] else [])"

definition line_item_errors :: "nat \<times> LineItem \<Rightarrow> ValidationError list" where
  "line_item_errors p =
     (case p of (idx, item) \<Rightarrow>
        (if quantity item < 0
         then [mk_error ''negative_quantity''
                 (Line_item_negative_quantity (idx + 1) (quantity item))]
         else [])
      @ (if unit_price item < 0
         then [mk_error ''negative_unit_price''
                 (Line_item_negative_unit_price (idx + 1) (unit_price item))]
         else []))"

definition check_non_negative :: "Invoice \<Rightarrow> ValidationError list" where
  "check_non_negative invoice =
     (let amount_fields = [(''net_total'', net_total invoice), (''tax_amount'', tax_amount invoice),
                           (''gross_total'', gross_total invoice)]
      in concat (map amount_errors amount_fields)
         @ concat (map line_item_errors (enumerate 0 (line_items invoice))))"

text \<open>\<^verbatim>\<open>not invoice.seller_tax_id\<close>: the field is \<^verbatim>\<open>None\<close> or the empty string.\<close>

definition falsy_str :: "string option \<Rightarrow> bool" where
  "falsy_str v = (case v of None \<Rightarrow> True | Some s \<Rightarrow> s = [])"

definition falsy_date :: "date option \<Rightarrow> bool" where
  "falsy_date v = (case v of None \<Rightarrow> True | Some d \<Rightarrow> \<not> truthy_date d)"

definition check_warnings :: "date \<Rightarrow> Invoice \<Rightarrow> ValidationError list" where
  "check_warnings today invoice =
     (if line_items invoice = [] then [mk_warning ''no_line_items'' Invoice_has_no_line_items]
      else [])
     @ (if falsy_str (seller_tax_id invoice)
        then [mk_warning ''missing_seller_tax_id'' Seller_tax_id_missing] else [])
     @ (if falsy_date (due_date invoice)
        then [mk_warning ''missing_due_date'' Due_date_missing] else [])
     @ (if truthy_date (invoice_date invoice) \<and> isinstance_date (invoice_date invoice) then
          (let age_days = days_between today (invoice_date invoice)
           in if age_days > 365 then [mk_warning ''old_invoice'' (Invoice_is_old age_days)]
              else [])
        else [])"

text \<open>
  The checks that do not touch the engine's state, in the order
  \<^verbatim>\<open>validate_invoice\<close> runs them before the duplicate check.
\<close>

definition checks_before_duplicates :: "date \<Rightarrow> Invoice \<Rightarrow> ValidationError list" where
  "checks_before_duplicates today invoice =
     check_required_fields invoice @ check_dates today invoice @ check_currency invoice
     @ check_line_items_sum invoice @ check_gross_calculation invoice @ check_due_date invoice"

definition validate_invoice ::
  "InvoiceValidator \<Rightarrow> date \<Rightarrow> Invoice \<Rightarrow> ValidationResult \<times> InvoiceValidator" where
  "validate_invoice self today invoice =
     (case check_duplicates self invoice of (dups, self') \<Rightarrow>
        (let errs = checks_before_duplicates today invoice @ dups @ check_non_negative invoice;
             warns = check_warnings today invoice;
             inv_id = (if invoice_number invoice = [] then ''UNKNOWN'' else invoice_number invoice)
         in (\<lparr>invoice_id = inv_id, is_valid = (length errs = 0), errors = errs,
              warnings = warns\<rparr>, self')))"

text \<open>\<^verbatim>\<open>error_counts[err.rule] += 1\<close> on a \<^verbatim>\<open>defaultdict(int)\<close>.\<close>

definition bump :: "(string \<rightharpoonup> int) \<Rightarrow> ValidationError \<Rightarrow> (string \<rightharpoonup> int)" where
  "bump counts err =
     counts(rule err \<mapsto> (case counts (rule err) of None \<Rightarrow> 0 | Some n \<Rightarrow> n) + 1)"

fun count_errors :: "(string \<rightharpoonup> int) \<Rightarrow> ValidationError list \<Rightarrow> (string \<rightharpoonup> int)" where
  "count_errors counts [] = counts"
| "count_errors counts (err # rest) = count_errors (bump counts err) rest"

text \<open>The loop of \<^verbatim>\<open>validate_batch\<close> over the invoices.\<close>

fun batch_loop ::
  "InvoiceValidator \<Rightarrow> date \<Rightarrow> Invoice list \<Rightarrow> ValidationResult list \<Rightarrow> (string \<rightharpoonup> int)
     \<Rightarrow> ValidationResult list \<times> (string \<rightharpoonup> int) \<times> InvoiceValidator" where
  "batch_loop self today [] results counts = (results, counts, self)"
| "batch_loop self today (invoice # rest) results counts =
     (case validate_invoice self today invoice of (result, self') \<Rightarrow>
        batch_loop self' today rest (results @ [result]) (count_errors counts (errors result)))"

record batch_output =
  results :: "ValidationResult list"
  summary :: ValidationSummary

definition validate_batch ::
  "InvoiceValidator \<Rightarrow> date \<Rightarrow> int \<Rightarrow> Invoice list \<Rightarrow> batch_output \<times> InvoiceValidator" where
  "validate_batch self today now invoices =
     (case batch_loop (self\<lparr>seen_invoices := {}\<rparr>) today invoices [] Map.empty of
        (rs, counts, self') \<Rightarrow>
          (let valid_count = int (length (filter is_valid rs))
           in (\<lparr>results = rs,
                summary = \<lparr>total_invoices = int (length invoices),
                            valid_invoices = valid_count,
                            invalid_invoices = int (length invoices) - valid_count,
                            error_counts = counts,
                            validation_timestamp = now\<rparr>\<rparr>, self')))"

text \<open>
  The results the loop of \<^verbatim>\<open>validate_batch\<close> appends, record by record, each
  validated in the state the previous one left; it states the loop's invariant.
\<close>

fun run_results :: "InvoiceValidator \<Rightarrow> date \<Rightarrow> Invoice list \<Rightarrow> ValidationResult list" where
  "run_results self today [] = []"
| "run_results self today (invoice # rest) =
     fst (validate_invoice self today invoice)
       # run_results (snd (validate_invoice self today invoice)) today rest"

subsection \<open>Sample data\<close>

definition sample_today :: date where
  "sample_today = \<lparr>year = 2024, month = 6, day = 15\<rparr>"

definition sample_item :: "real \<Rightarrow> real \<Rightarrow> real \<Rightarrow> LineItem" where
  "sample_item q p t =
     \<lparr>description = ''Consulting services'', quantity = q, unit_price = p, line_total = t,
      tax_rate = None\<rparr>"

definition sample_invoice :: Invoice where
  "sample_invoice =
     \<lparr>invoice_number = ''INV-2024-001'', external_reference = None,
      seller_name = ''Tech Solutions GmbH'', seller_address = None,
      seller_tax_id = Some ''DE123456789'', buyer_name = ''Example Corp AG'',
      buyer_address = None, buyer_tax_id = None,
      invoice_date = \<lparr>year = 2024, month = 1, day = 15\<rparr>,
      due_date = Some \<lparr>year = 2024, month = 2, day = 14\<rparr>,
      currency = ''EUR'', net_total = 100, tax_amount = 19, gross_total = 119,
      line_items = [sample_item 1 100 100], payment_terms = None, notes_text = None,
      source_file = None, extracted_at = None\<rparr>"



definition warned_invoice :: Invoice where
  "warned_invoice = sample_invoice\<lparr>seller_tax_id := None, due_date := None\<rparr>"

definition negative_total_invoice :: Invoice where
  "negative_total_invoice = sample_invoice\<lparr>tax_amount := - 19\<rparr>"

definition negative_line_invoice :: Invoice where
  "negative_line_invoice = sample_invoice\<lparr>line_items := [sample_item (- 1) (- 100) 100]\<rparr>"

definition duplicate_batch :: "Invoice list" where
  "duplicate_batch =
     [sample_invoice,
      sample_invoice\<lparr>buyer_name := ''Another Buyer Ltd'', net_total := 200\<rparr>,
      sample_invoice\<lparr>invoice_number := ''INV-2024-002''\<rparr>,
      sample_invoice]"

definition summary_batch :: "Invoice list" where
  "summary_batch =
     [sample_invoice,
      sample_invoice\<lparr>invoice_number := ''INV-2024-002'', currency := ''CHF''\<rparr>,
      sample_invoice\<lparr>invoice_number := ''INV-2024-003'', currency := ''CHF'',
        due_date := Some \<lparr>year = 2024, month = 1, day = 1\<rparr>\<rparr>]"

section \<open>Properties\<close>

subsection \<open>Unfolding the checks on concrete data\<close>

lemmas check_defs =
  validate_invoice_def checks_before_duplicates_def check_required_fields_def
  REQUIRED_FIELDS_def required_field_errors_def getattr_invoice_def blank_def is_space_def
  check_dates_def truthy_date_def isinstance_date_def days_between_def toordinal_def
  days_before_year_def days_before_month_def DAYS_BEFORE_MONTH_def is_leap_def
  check_currency_def Currency_values_def check_line_items_sum_def
  check_gross_calculation_def check_due_date_def date_less_def check_duplicates_def
  invoice_key_def str_date_def digit_def check_non_negative_def amount_errors_def
  line_item_errors_def check_warnings_def falsy_str_def falsy_date_def mk_error_def
  mk_warning_def InvoiceValidator_init_def Let_def enumerate_eq_zip

lemmas sample_defs =
  sample_today_def sample_invoice_def sample_item_def warned_invoice_def

subsection \<open>Rule identifiers each check can emit\<close>

lemma rules_required_field_errors:
  "rule ` set (required_field_errors invoice f) \<subseteq> {''required_field_missing'', ''required_field_empty''}"
  by (auto simp: required_field_errors_def mk_error_def split: field_value.splits)

lemma rules_required_fields:
  "rule ` set (check_required_fields invoice) \<subseteq> {''required_field_missing'', ''required_field_empty''}"
  using rules_required_field_errors by (fastforce simp: check_required_fields_def)

lemma rules_dates:
  "rule ` set (check_dates today invoice) \<subseteq> {''date_out_of_range''}"
  by (auto simp: check_dates_def truthy_date_def isinstance_date_def mk_error_def
      split: option.splits if_splits)

lemma rules_currency:
  "rule ` set (check_currency invoice) \<subseteq> {''invalid_currency''}"
  by (auto simp: check_currency_def mk_error_def Let_def)

lemma rules_line_items_sum:
  "rule ` set (check_line_items_sum invoice) \<subseteq> {''line_items_sum_mismatch''}"
  by (auto simp: check_line_items_sum_def mk_error_def Let_def)

lemma rules_gross_calculation:
  "rule ` set (check_gross_calculation invoice) \<subseteq> {''gross_calculation_mismatch''}"
  by (auto simp: check_gross_calculation_def mk_error_def Let_def)

lemma rules_due_date:
  "rule ` set (check_due_date invoice) \<subseteq> {''due_date_before_invoice_date''}"
  by (auto simp: check_due_date_def mk_error_def split: option.splits)

lemma rules_duplicates:
  "rule ` set (fst (check_duplicates self invoice)) \<subseteq> {''duplicate_invoice''}"
  by (auto simp: check_duplicates_def mk_error_def Let_def)

lemma rules_line_item_errors:
  "rule ` set (line_item_errors p) \<subseteq> {''negative_quantity'', ''negative_unit_price''}"
  by (cases p) (auto simp: line_item_errors_def mk_error_def)



subsection \<open>Single invoice\<close>

lemma errors_validate_invoice:
  "errors (fst (validate_invoice self today invoice)) =
     checks_before_duplicates today invoice @ fst (check_duplicates self invoice)
     @ check_non_negative invoice"
  by (simp add: validate_invoice_def Let_def split: prod.splits)









text \<open>
  C1. The result of \<^verbatim>\<open>validate_invoice\<close> has \<^verbatim>\<open>is_valid\<close> set exactly when its list
  of errors is empty; the warnings play no part.
\<close>

theorem is_valid_iff_no_errors:
  "is_valid (fst (validate_invoice self today invoice))
     \<longleftrightarrow> errors (fst (validate_invoice self today invoice)) = []"
  by (simp add: validate_invoice_def Let_def split: prod.splits)

text \<open>
  An invoice with two warnings and no error is valid; the same invoice with a currency
  outside the enumeration keeps its warnings and is invalid.
\<close>

theorem is_valid_iff_no_errors_witness:
  "warnings (fst (validate_invoice InvoiceValidator_init sample_today warned_invoice)) \<noteq> []
   \<and> is_valid (fst (validate_invoice InvoiceValidator_init sample_today warned_invoice))
   \<and> warnings (fst (validate_invoice InvoiceValidator_init sample_today
        (warned_invoice\<lparr>currency := ''XXX''\<rparr>)))
       = warnings (fst (validate_invoice InvoiceValidator_init sample_today warned_invoice))
   \<and> \<not> is_valid (fst (validate_invoice InvoiceValidator_init sample_today
        (warned_invoice\<lparr>currency := ''XXX''\<rparr>)))"
proof -
  have w: "warnings (fst (validate_invoice InvoiceValidator_init sample_today warned_invoice))
      = [mk_warning ''missing_seller_tax_id'' Seller_tax_id_missing,
         mk_warning ''missing_due_date'' Due_date_missing]"
    by (simp add: check_defs sample_defs)
  have w': "warnings (fst (validate_invoice InvoiceValidator_init sample_today
        (warned_invoice\<lparr>currency := ''XXX''\<rparr>)))
      = [mk_warning ''missing_seller_tax_id'' Seller_tax_id_missing,
         mk_warning ''missing_due_date'' Due_date_missing]"
    by (simp add: check_defs sample_defs)
  have e: "errors (fst (validate_invoice InvoiceValidator_init sample_today warned_invoice)) = []"
    by (simp add: check_defs sample_defs)
  have e': "errors (fst (validate_invoice InvoiceValidator_init sample_today
        (warned_invoice\<lparr>currency := ''XXX''\<rparr>))) \<noteq> []"
    by (simp add: check_defs sample_defs)
  show ?thesis
    using w w' e e'
      is_valid_iff_no_errors [of InvoiceValidator_init sample_today warned_invoice]
      is_valid_iff_no_errors [of InvoiceValidator_init sample_today
        "warned_invoice\<lparr>currency := ''XXX''\<rparr>"]
    by simp
qed

text \<open>
  C10. The \<^verbatim>\<open>invoice_id\<close> of the result is \<^verbatim>\<open>UNKNOWN\<close> for an empty
  \<^verbatim>\<open>invoice_number\<close> and the \<^verbatim>\<open>invoice_number\<close> itself otherwise.
\<close>

theorem invoice_id_unknown:
  "(invoice_number invoice = [] \<longrightarrow>
      invoice_id (fst (validate_invoice self today invoice)) = ''UNKNOWN'')
   \<and> (invoice_number invoice \<noteq> [] \<longrightarrow>
      invoice_id (fst (validate_invoice self today invoice)) = invoice_number invoice)"
  by (simp add: validate_invoice_def Let_def split: prod.splits)

theorem invoice_id_unknown_witness:
  "invoice_number (sample_invoice\<lparr>invoice_number := ''''\<rparr>) = []
   \<and> invoice_id (fst (validate_invoice InvoiceValidator_init sample_today
        (sample_invoice\<lparr>invoice_number := ''''\<rparr>))) = ''UNKNOWN''
   \<and> invoice_number sample_invoice \<noteq> []
   \<and> invoice_id (fst (validate_invoice InvoiceValidator_init sample_today sample_invoice))
       = ''INV-2024-001''"
proof -
  have h: "invoice_number sample_invoice = ''INV-2024-001''"
    by (simp add: sample_invoice_def)
  show ?thesis
    using h invoice_id_unknown [of "sample_invoice\<lparr>invoice_number := ''''\<rparr>"
        InvoiceValidator_init sample_today]
      invoice_id_unknown [of sample_invoice InvoiceValidator_init sample_today]
    by simp
qed

subsection \<open>Construction and the non-negative check\<close>

lemma field_errors_eq:
  "field_errors name v =
     (if v < 0 then [(name, ValueError ''Amounts cannot be negative'')] else [])"
  by (simp add: field_errors_def non_negative_amounts_def)

text \<open>
  C8. Constructing an invoice with a negative \<^verbatim>\<open>net_total\<close>, \<^verbatim>\<open>tax_amount\<close> or
  \<^verbatim>\<open>gross_total\<close> fails with a construction error, before any validation engine is
  involved; with the three of them non-negative the construction succeeds.
\<close>

theorem construction_rejects_negative_totals:
  "(net_total raw < 0 \<or> tax_amount raw < 0 \<or> gross_total raw < 0 \<longrightarrow> isl (Invoice_init raw))
   \<and> (0 \<le> net_total raw \<and> 0 \<le> tax_amount raw \<and> 0 \<le> gross_total raw
        \<longrightarrow> Invoice_init raw = Inr raw)"
proof (intro conjI impI)
  assume "net_total raw < 0 \<or> tax_amount raw < 0 \<or> gross_total raw < 0"
  then have "field_errors ''net_total'' (net_total raw)
      @ field_errors ''tax_amount'' (tax_amount raw)
      @ field_errors ''gross_total'' (gross_total raw) \<noteq> []"
    unfolding field_errors_eq by (elim disjE) simp_all
  then show "isl (Invoice_init raw)"
    by (simp add: Invoice_init_def Let_def)
next
  assume "0 \<le> net_total raw \<and> 0 \<le> tax_amount raw \<and> 0 \<le> gross_total raw"
  then have "field_errors ''net_total'' (net_total raw)
      @ field_errors ''tax_amount'' (tax_amount raw)
      @ field_errors ''gross_total'' (gross_total raw) = []"
    unfolding field_errors_eq by simp
  then show "Invoice_init raw = Inr raw"
    by (simp add: Invoice_init_def Let_def)
qed

text \<open>
  A negative tax amount is rejected with the validator's message; negative line-item
  values do not stop the construction.
\<close>

theorem construction_rejects_negative_totals_witness:
  "tax_amount negative_total_invoice < 0
   \<and> Invoice_init negative_total_invoice
       = Inl [(''tax_amount'', ValueError ''Amounts cannot be negative'')]
   \<and> (0 \<le> net_total negative_line_invoice \<and> 0 \<le> tax_amount negative_line_invoice
        \<and> 0 \<le> gross_total negative_line_invoice)
   \<and> Invoice_init negative_line_invoice = Inr negative_line_invoice"
proof -
  have neg: "tax_amount negative_total_invoice < 0"
    by (simp add: negative_total_invoice_def)
  have nonneg: "0 \<le> net_total negative_line_invoice \<and> 0 \<le> tax_amount negative_line_invoice
        \<and> 0 \<le> gross_total negative_line_invoice"
    by (simp add: negative_line_invoice_def sample_invoice_def)
  have "isl (Invoice_init negative_total_invoice)"
    using neg construction_rejects_negative_totals [of negative_total_invoice] by blast
  moreover have "Invoice_init negative_total_invoice = Inr negative_total_invoice
      \<or> Invoice_init negative_total_invoice
       = Inl [(''tax_amount'', ValueError ''Amounts cannot be negative'')]"
    by (simp add: Invoice_init_def field_errors_eq Let_def
        negative_total_invoice_def sample_invoice_def)
  ultimately have "Invoice_init negative_total_invoice
       = Inl [(''tax_amount'', ValueError ''Amounts cannot be negative'')]"
    by auto
  moreover have "Invoice_init negative_line_invoice = Inr negative_line_invoice"
    using nonneg construction_rejects_negative_totals [of negative_line_invoice] by blast
  ultimately show ?thesis
    using neg nonneg by blast
qed

lemma negative_amount_only_from_non_negative:
  "''negative_amount'' \<in> rule ` set (errors (fst (validate_invoice self today invoice)))
     \<longleftrightarrow> ''negative_amount'' \<in> rule ` set (concat (map amount_errors
           [(''net_total'', net_total invoice), (''tax_amount'', tax_amount invoice),
            (''gross_total'', gross_total invoice)]))"
proof -
  have "''negative_amount'' \<notin> rule ` set (check_required_fields invoice)"
    using rules_required_fields [of invoice] by auto
  moreover have "''negative_amount'' \<notin> rule ` set (check_dates today invoice)"
    using rules_dates [of today invoice] by auto
  moreover have "''negative_amount'' \<notin> rule ` set (check_currency invoice)"
    using rules_currency [of invoice] by auto
  moreover have "''negative_amount'' \<notin> rule ` set (check_line_items_sum invoice)"
    using rules_line_items_sum [of invoice] by auto
  moreover have "''negative_amount'' \<notin> rule ` set (check_gross_calculation invoice)"
    using rules_gross_calculation [of invoice] by auto
  moreover have "''negative_amount'' \<notin> rule ` set (check_due_date invoice)"
    using rules_due_date [of invoice] by auto
  moreover have "''negative_amount'' \<notin> rule ` set (fst (check_duplicates self invoice))"
    using rules_duplicates [of self invoice] by auto
  moreover have "''negative_amount'' \<notin> rule ` set (concat (map line_item_errors ys))" for ys
    using rules_line_item_errors by fastforce
  ultimately show ?thesis
    unfolding errors_validate_invoice checks_before_duplicates_def check_non_negative_def
      Let_def set_append image_Un
    by blast
qed

lemma non_negative_errors_reported:
  "rule ` set (check_non_negative invoice)
     \<subseteq> rule ` set (errors (fst (validate_invoice self today invoice)))"
  unfolding errors_validate_invoice set_append image_Un by blast

lemma amount_errors_nonneg: "0 \<le> v \<Longrightarrow> amount_errors (name, v) = []"
  by (simp add: amount_errors_def)

text \<open>
  C9. For an invoice whose \<^verbatim>\<open>net_total\<close>, \<^verbatim>\<open>tax_amount\<close> and \<^verbatim>\<open>gross_total\<close> are
  non-negative, \<^verbatim>\<open>validate_invoice\<close> never reports \<^verbatim>\<open>negative_amount\<close>; yet an invoice
  that passes construction can be reported for \<^verbatim>\<open>negative_quantity\<close> and
  \<^verbatim>\<open>negative_unit_price\<close>, since line items are checked by the engine only.
\<close>

theorem negative_amount_unreachable:
  "(0 \<le> net_total invoice \<and> 0 \<le> tax_amount invoice \<and> 0 \<le> gross_total invoice
      \<longrightarrow> ''negative_amount''
            \<notin> rule ` set (errors (fst (validate_invoice self today invoice))))
   \<and> (\<exists>other. Invoice_init other = Inr other
        \<and> ''negative_quantity''
            \<in> rule ` set (errors (fst (validate_invoice self today other)))
        \<and> ''negative_unit_price''
            \<in> rule ` set (errors (fst (validate_invoice self today other))))"
proof (intro conjI impI)
  assume a: "0 \<le> net_total invoice \<and> 0 \<le> tax_amount invoice \<and> 0 \<le> gross_total invoice"
  have "concat (map amount_errors
           [(''net_total'', net_total invoice), (''tax_amount'', tax_amount invoice),
            (''gross_total'', gross_total invoice)]) = []"
    using a by (simp add: amount_errors_nonneg)
  then show "''negative_amount''
      \<notin> rule ` set (errors (fst (validate_invoice self today invoice)))"
    by (simp only: negative_amount_only_from_non_negative set_simps image_empty empty_iff
        not_False_eq_True)
next
  have c: "Invoice_init negative_line_invoice = Inr negative_line_invoice"
    by (simp add: Invoice_init_def field_errors_eq Let_def
        negative_line_invoice_def sample_invoice_def)
  have r: "rule ` set (check_non_negative negative_line_invoice)
      = {''negative_quantity'', ''negative_unit_price''}"
    by (simp add: check_non_negative_def amount_errors_def line_item_errors_def mk_error_def
        negative_line_invoice_def sample_invoice_def sample_item_def enumerate_eq_zip)
  have q: "''negative_quantity'' \<in> rule ` set (check_non_negative negative_line_invoice)"
    unfolding r by (rule insertI1)
  have u: "''negative_unit_price'' \<in> rule ` set (check_non_negative negative_line_invoice)"
    unfolding r by (rule insertI2) (rule insertI1)
  show "\<exists>other. Invoice_init other = Inr other
        \<and> ''negative_quantity''
            \<in> rule ` set (errors (fst (validate_invoice self today other)))
        \<and> ''negative_unit_price''
            \<in> rule ` set (errors (fst (validate_invoice self today other)))"
    using c subsetD [OF non_negative_errors_reported q, of self today]
      subsetD [OF non_negative_errors_reported u, of self today]
    by (intro exI [of _ negative_line_invoice] conjI)
qed

theorem negative_amount_unreachable_witness:
  "(0 \<le> net_total sample_invoice \<and> 0 \<le> tax_amount sample_invoice
      \<and> 0 \<le> gross_total sample_invoice)
   \<and> ''negative_amount''
        \<notin> rule ` set (errors (fst (validate_invoice InvoiceValidator_init sample_today
            sample_invoice)))"
proof -
  have nonneg: "0 \<le> net_total sample_invoice \<and> 0 \<le> tax_amount sample_invoice
      \<and> 0 \<le> gross_total sample_invoice"
    by (simp add: sample_invoice_def)
  have "''negative_amount''
        \<notin> rule ` set (errors (fst (validate_invoice InvoiceValidator_init sample_today
            sample_invoice)))"
    by (rule mp [OF conjunct1 [OF negative_amount_unreachable] nonneg])
  with nonneg show ?thesis by (rule conjI)
qed

subsection \<open>Batches\<close>

lemma snd_validate_invoice:
  "snd (validate_invoice self today invoice)
     = self\<lparr>seen_invoices := insert (invoice_key invoice) (seen_invoices self)\<rparr>"
  by (simp add: validate_invoice_def check_duplicates_def Let_def insert_absorb
      split: prod.splits)

lemma count_errors_append:
  "count_errors counts (xs @ ys) = count_errors (count_errors counts xs) ys"
  by (induction xs arbitrary: counts) simp_all

lemma batch_loop_eq:
  "batch_loop self today invoices rs counts =
     (rs @ run_results self today invoices,
      count_errors counts (concat (map errors (run_results self today invoices))),
      self\<lparr>seen_invoices := seen_invoices self \<union> invoice_key ` set invoices\<rparr>)"
proof (induction invoices arbitrary: self rs counts)
  case Nil
  show ?case by simp
next
  case (Cons invoice rest)
  obtain result self' where v: "validate_invoice self today invoice = (result, self')"
    by (cases "validate_invoice self today invoice")
  have s: "self' = self\<lparr>seen_invoices := insert (invoice_key invoice) (seen_invoices self)\<rparr>"
    using snd_validate_invoice [of self today invoice] v by simp
  show ?case
    by (simp add: v Cons.IH count_errors_append) (simp add: s)
qed

lemma length_run_results: "length (run_results self today invoices) = length invoices"
  by (induction invoices arbitrary: self) simp_all

lemma run_results_nth:
  "i < length invoices \<Longrightarrow>
     run_results self today invoices ! i
       = fst (validate_invoice
           (self\<lparr>seen_invoices := seen_invoices self \<union> invoice_key ` set (take i invoices)\<rparr>)
           today (invoices ! i))"
proof (induction invoices arbitrary: self i)
  case Nil
  then show ?case by simp
next
  case (Cons invoice rest)
  show ?case
  proof (cases i)
    case 0
    then show ?thesis by simp
  next
    case (Suc k)
    with Cons.prems have "k < length rest" by simp
    from Cons.IH [OF this] show ?thesis
      by (simp add: Suc snd_validate_invoice)
  qed
qed

lemma results_validate_batch:
  "results (fst (validate_batch self today now invoices))
     = run_results (self\<lparr>seen_invoices := {}\<rparr>) today invoices"
  by (simp add: validate_batch_def batch_loop_eq Let_def)








lemma count_errors_lookup:
  "count_errors counts errs r =
     (if count_list (map rule errs) r = 0 then counts r
      else Some ((case counts r of None \<Rightarrow> 0 | Some n \<Rightarrow> n)
             + int (count_list (map rule errs) r)))"
proof (induction errs arbitrary: counts)
  case Nil
  show ?case by simp
next
  case (Cons e rest)
  show ?case
    by (simp add: Cons.IH bump_def)
qed

lemma validate_batch_eq:
  "validate_batch self today now invoices =
     (\<lparr>results = run_results (self\<lparr>seen_invoices := {}\<rparr>) today invoices,
       summary = \<lparr>total_invoices = int (length invoices),
         valid_invoices =
           int (length (filter is_valid (run_results (self\<lparr>seen_invoices := {}\<rparr>) today invoices))),
         invalid_invoices = int (length invoices)
           - int (length (filter is_valid (run_results (self\<lparr>seen_invoices := {}\<rparr>) today invoices))),
         error_counts = count_errors Map.empty
           (concat (map errors (run_results (self\<lparr>seen_invoices := {}\<rparr>) today invoices))),
         validation_timestamp = now\<rparr>\<rparr>,
      self\<lparr>seen_invoices := invoice_key ` set invoices\<rparr>)"
  by (simp add: validate_batch_def batch_loop_eq Let_def)

text \<open>
  C3. \<^verbatim>\<open>validate_batch\<close> returns one result per record, in input order: the result at
  position \<open>i\<close> is that of \<^verbatim>\<open>validate_invoice\<close> on record \<open>i\<close>, run after the records
  before it. In the summary, \<^verbatim>\<open>error_counts\<close> maps a rule identifier to the number of
  errors with that rule over all results (and has no entry for a rule without errors),
  \<^verbatim>\<open>total_invoices\<close> is the length of the input, \<^verbatim>\<open>valid_invoices\<close> the number of
  results with \<^verbatim>\<open>is_valid\<close>, and \<^verbatim>\<open>invalid_invoices\<close> their difference.
\<close>

theorem batch_results_and_summary:
  "length (results (fst (validate_batch self today now invoices))) = length invoices
   \<and> (\<forall>i<length invoices.
        results (fst (validate_batch self today now invoices)) ! i
          = fst (validate_invoice
              (self\<lparr>seen_invoices := invoice_key ` set (take i invoices)\<rparr>) today
              (invoices ! i)))
   \<and> (\<forall>r. error_counts (summary (fst (validate_batch self today now invoices))) r
          = (let n = count_list (map rule (concat (map errors
                       (results (fst (validate_batch self today now invoices)))))) r
             in if n = 0 then None else Some (int n)))
   \<and> total_invoices (summary (fst (validate_batch self today now invoices)))
       = int (length invoices)
   \<and> valid_invoices (summary (fst (validate_batch self today now invoices)))
       = int (length (filter is_valid (results (fst (validate_batch self today now invoices)))))
   \<and> invalid_invoices (summary (fst (validate_batch self today now invoices)))
       = total_invoices (summary (fst (validate_batch self today now invoices)))
         - valid_invoices (summary (fst (validate_batch self today now invoices)))"
proof (intro conjI allI impI)
  show "length (results (fst (validate_batch self today now invoices))) = length invoices"
    by (simp add: validate_batch_eq length_run_results)
next
  fix i assume "i < length invoices"
  from run_results_nth [OF this, of "self\<lparr>seen_invoices := {}\<rparr>" today]
  show "results (fst (validate_batch self today now invoices)) ! i
      = fst (validate_invoice
          (self\<lparr>seen_invoices := invoice_key ` set (take i invoices)\<rparr>) today (invoices ! i))"
    by (simp add: validate_batch_eq)
next
  fix r
  show "error_counts (summary (fst (validate_batch self today now invoices))) r
      = (let n = count_list (map rule (concat (map errors
                   (results (fst (validate_batch self today now invoices)))))) r
         in if n = 0 then None else Some (int n))"
    by (simp add: validate_batch_eq count_errors_lookup Let_def)
qed (simp_all add: validate_batch_eq)

lemma summary_batch_rules:
  "map (\<lambda>r. (is_valid r, map rule (errors r)))
       (run_results (InvoiceValidator_init\<lparr>seen_invoices := {}\<rparr>) sample_today summary_batch)
     = [(True, []), (False, [''invalid_currency'']),
        (False, [''invalid_currency'', ''due_date_before_invoice_date''])]"
  by (simp add: summary_batch_def check_defs sample_defs)

text \<open>
  Three records, the second with an unknown currency, the third with an unknown
  currency and a due date before the invoice date.
\<close>

theorem batch_results_and_summary_witness:
  "length (results (fst (validate_batch InvoiceValidator_init sample_today 0 summary_batch))) = 3
   \<and> error_counts (summary (fst (validate_batch InvoiceValidator_init sample_today 0
         summary_batch)))
       = [''invalid_currency'' \<mapsto> 2, ''due_date_before_invoice_date'' \<mapsto> 1]
   \<and> valid_invoices (summary (fst (validate_batch InvoiceValidator_init sample_today 0
         summary_batch))) = 1
   \<and> invalid_invoices (summary (fst (validate_batch InvoiceValidator_init sample_today 0
         summary_batch))) = 2"
proof -
  note b = batch_results_and_summary [of InvoiceValidator_init sample_today 0 summary_batch]
  have rs: "results (fst (validate_batch InvoiceValidator_init sample_today 0 summary_batch))
      = run_results (InvoiceValidator_init\<lparr>seen_invoices := {}\<rparr>) sample_today summary_batch"
    by (rule results_validate_batch)
  have len: "length summary_batch = 3"
    by (simp add: summary_batch_def)
  have "map rule (concat (map errors
          (results (fst (validate_batch InvoiceValidator_init sample_today 0 summary_batch)))))
      = concat (map snd (map (\<lambda>r. (is_valid r, map rule (errors r)))
          (run_results (InvoiceValidator_init\<lparr>seen_invoices := {}\<rparr>) sample_today
             summary_batch)))"
    unfolding rs by (simp add: map_concat comp_def)
  then have rules: "map rule (concat (map errors
          (results (fst (validate_batch InvoiceValidator_init sample_today 0 summary_batch)))))
      = [''invalid_currency'', ''invalid_currency'', ''due_date_before_invoice_date'']"
    unfolding summary_batch_rules by simp
  have "length (filter is_valid
          (results (fst (validate_batch InvoiceValidator_init sample_today 0 summary_batch))))
      = length (filter fst (map (\<lambda>r. (is_valid r, map rule (errors r)))
          (run_results (InvoiceValidator_init\<lparr>seen_invoices := {}\<rparr>) sample_today
             summary_batch)))"
    unfolding rs by (simp add: filter_map comp_def)
  then have valid: "length (filter is_valid
          (results (fst (validate_batch InvoiceValidator_init sample_today 0 summary_batch))))
      = 1"
    unfolding summary_batch_rules by simp
  have counts: "error_counts (summary (fst (validate_batch InvoiceValidator_init sample_today 0
         summary_batch)))
       = [''invalid_currency'' \<mapsto> 2, ''due_date_before_invoice_date'' \<mapsto> 1]"
  proof (rule ext)
    fix r
    from b have "error_counts (summary (fst (validate_batch InvoiceValidator_init sample_today 0
         summary_batch))) r
       = (let n = count_list [''invalid_currency'', ''invalid_currency'',
                     ''due_date_before_invoice_date''] r
          in if n = 0 then None else Some (int n))"
      unfolding rules by blast
    then show "error_counts (summary (fst (validate_batch InvoiceValidator_init sample_today 0
         summary_batch))) r
       = [''invalid_currency'' \<mapsto> 2, ''due_date_before_invoice_date'' \<mapsto> 1] r"
      by (simp add: Let_def)
  qed
  from b have "length (results (fst (validate_batch InvoiceValidator_init sample_today 0
      summary_batch))) = length summary_batch"
    by (rule conjunct1)
  moreover from b have "valid_invoices (summary (fst (validate_batch InvoiceValidator_init
      sample_today 0 summary_batch))) = 1"
    unfolding valid by simp
  moreover from b have "total_invoices (summary (fst (validate_batch InvoiceValidator_init
      sample_today 0 summary_batch))) = 3"
    unfolding len by simp
  moreover from b have "invalid_invoices (summary (fst (validate_batch InvoiceValidator_init
      sample_today 0 summary_batch)))
       = total_invoices (summary (fst (validate_batch InvoiceValidator_init sample_today 0
           summary_batch)))
         - valid_invoices (summary (fst (validate_batch InvoiceValidator_init sample_today 0
           summary_batch)))"
    by simp
  ultimately show ?thesis
    using counts len by simp
qed

text \<open>
  C7, amended. Running \<^verbatim>\<open>validate_batch\<close> again on the same list and on the same
  calendar day, on the engine the first run leaves behind or on a fresh one, gives the
  same results, and a summary that differs from the first one at most in
  \<^verbatim>\<open>validation_timestamp\<close>, which holds the clock reading of its own run.
\<close>

theorem batch_rerun:
  "results (fst (validate_batch (snd (validate_batch self today now1 invoices)) today now2
       invoices))
     = results (fst (validate_batch self today now1 invoices))
   \<and> summary (fst (validate_batch (snd (validate_batch self today now1 invoices)) today now2
       invoices))
     = (summary (fst (validate_batch self today now1 invoices)))\<lparr>validation_timestamp := now2\<rparr>
   \<and> results (fst (validate_batch InvoiceValidator_init today now3 invoices))
     = results (fst (validate_batch self today now1 invoices))
   \<and> summary (fst (validate_batch InvoiceValidator_init today now3 invoices))
     = (summary (fst (validate_batch self today now1 invoices)))\<lparr>validation_timestamp := now3\<rparr>"
proof -
  have reset: "s\<lparr>seen_invoices := {}\<rparr> = InvoiceValidator_init" for s :: InvoiceValidator
    by (cases s) (simp add: InvoiceValidator_init_def)
  show ?thesis
    by (simp add: validate_batch_eq reset)
qed

lemma same_timestamp:
  "validation_timestamp s = t \<Longrightarrow> s\<lparr>validation_timestamp := t\<rparr> = s"
  by (cases s) simp

text \<open>
  With the same clock reading the two outputs are equal.
\<close>

theorem batch_rerun_witness:
  "fst (validate_batch (snd (validate_batch InvoiceValidator_init sample_today 5 duplicate_batch))
       sample_today 5 duplicate_batch)
     = fst (validate_batch InvoiceValidator_init sample_today 5 duplicate_batch)"
proof (rule batch_output.equality)
  note rerun = batch_rerun [of InvoiceValidator_init sample_today 5 duplicate_batch 5 5]
  have stamp: "validation_timestamp (summary (fst (validate_batch InvoiceValidator_init
      sample_today 5 duplicate_batch))) = 5"
    by (simp add: validate_batch_eq)
  from rerun show "results (fst (validate_batch (snd (validate_batch InvoiceValidator_init
        sample_today 5 duplicate_batch)) sample_today 5 duplicate_batch))
      = results (fst (validate_batch InvoiceValidator_init sample_today 5 duplicate_batch))"
    by (rule conjunct1)
  from rerun have "summary (fst (validate_batch (snd (validate_batch InvoiceValidator_init
        sample_today 5 duplicate_batch)) sample_today 5 duplicate_batch))
      = (summary (fst (validate_batch InvoiceValidator_init sample_today 5 duplicate_batch)))
          \<lparr>validation_timestamp := 5\<rparr>"
    by (rule conjunct1 [OF conjunct2])
  also have "\<dots> = summary (fst (validate_batch InvoiceValidator_init sample_today 5
      duplicate_batch))"
    by (rule same_timestamp [OF stamp])
  finally show "summary (fst (validate_batch (snd (validate_batch InvoiceValidator_init
        sample_today 5 duplicate_batch)) sample_today 5 duplicate_batch))
      = summary (fst (validate_batch InvoiceValidator_init sample_today 5 duplicate_batch))" .
qed simp

text \<open>
  The summaries of two runs on the same list, on the same day and on the same engine,
  are not equal when the clock has advanced between them.
\<close>

theorem batch_rerun_counterexample:
  "summary (fst (validate_batch (snd (validate_batch InvoiceValidator_init sample_today 0
       [sample_invoice])) sample_today 1 [sample_invoice]))
     \<noteq> summary (fst (validate_batch InvoiceValidator_init sample_today 0 [sample_invoice]))"
proof
  assume "summary (fst (validate_batch (snd (validate_batch InvoiceValidator_init sample_today 0
       [sample_invoice])) sample_today 1 [sample_invoice]))
     = summary (fst (validate_batch InvoiceValidator_init sample_today 0 [sample_invoice]))"
  then have "validation_timestamp (summary (fst (validate_batch (snd (validate_batch
       InvoiceValidator_init sample_today 0 [sample_invoice])) sample_today 1 [sample_invoice])))
     = validation_timestamp (summary (fst (validate_batch InvoiceValidator_init sample_today 0
         [sample_invoice])))"
    by (rule arg_cong)
  then show False
    by (simp add: validate_batch_eq)
qed

end
